theory Spec2Isabelle
  imports Complex_Main
begin

section \<open>Data model (types.ts)\<close>

datatype UserRole = SUPER_ADMIN | ORG_ADMIN | RSM | SALES_ENG | DEALER | DSE

record Organization =
  o_id :: string
  o_name :: string
  o_adminEmail :: string
  o_isApproved :: bool
  o_createdAt :: string

text \<open>Optional properties (\<^verbatim>\<open>rsmEmail?: string\<close>) are options: \<open>None\<close> is the absent property.\<close>

record UserHierarchy =
  rsmEmail :: "string option"
  seEmails :: "string list option"
  dealerEmails :: "string list option"
  dseEmails :: "string list option"

record User =
  u_id :: string
  u_email :: string
  u_name :: string
  u_password :: "string option"
  u_parentId :: "string option"
  u_role :: UserRole
  u_organizationId :: string
  u_organizationName :: string
  u_isApproved :: bool
  u_hierarchy :: "UserHierarchy option"

record Competitor =
  comp_name :: string
  comp_share :: real

record Customer =
  c_id :: string
  c_createdBy :: string
  c_organizationId :: string
  c_name :: string
  c_address :: string
  c_pinCode :: string
  c_contactPerson :: string
  c_contactNumber :: string
  c_businessSector :: string
  c_tungaloyShare :: real
  c_annualPotential :: real
  c_competitors :: "Competitor list"
  c_fyPlan :: string

datatype AttachmentType = photo | document

record Attachment =
  a_name :: string
  a_data :: string
  a_type :: AttachmentType

section \<open>JavaScript values and exceptions\<close>

text \<open>A thrown exception is the left summand of a result; \<open>Error msg\<close> is \<^verbatim>\<open>new Error(msg)\<close>,
  \<open>Thrown\<close> stands for any exception raised inside a library.\<close>

datatype js_error = Error string | Thrown string

text \<open>\<^verbatim>\<open>if (s)\<close> on an optional string: \<^verbatim>\<open>undefined\<close>, \<^verbatim>\<open>null\<close> and the empty string are falsy.\<close>

definition truthy :: "string option \<Rightarrow> bool" where
  "truthy s = (case s of None \<Rightarrow> False | Some x \<Rightarrow> x \<noteq> [])"

text \<open>\<^verbatim>\<open>try { body } catch (e) { handler }\<close>.\<close>

definition try_catch :: "js_error + 'a \<Rightarrow> (js_error \<Rightarrow> js_error + 'a) \<Rightarrow> js_error + 'a" where
  "try_catch body handler = (case body of Inl e \<Rightarrow> handler e | Inr v \<Rightarrow> Inr v)"

section \<open>Mail service (services/mailService.ts)\<close>

definition APP_SECRET_KEY :: string where
  "APP_SECRET_KEY = ''SALES_TRACKER_SECURE_KEY_V1''"

definition SYNC_SUBJECT_PREFIX :: string where
  "SYNC_SUBJECT_PREFIX = ''[ST_SYNC]''"

datatype PacketType = PLAN | CUSTOMER | USER_REG

fun PacketType_string :: "PacketType \<Rightarrow> string" where
  "PacketType_string PLAN = ''PLAN''"
| "PacketType_string CUSTOMER = ''CUSTOMER''"
| "PacketType_string USER_REG = ''USER_REG''"

record 'd SyncPacket =
  p_type :: PacketType
  p_data :: 'd
  p_timestamp :: string
  p_sender :: string

text \<open>A \<^verbatim>\<open>WordArray\<close> is a sequence of bytes; a \<open>char\<close> is one byte.\<close>

type_synonym WordArray = "char list"

text \<open>
  The library functions the service calls are not part of the repository; they are
  parameters of the model. A value of type \<^verbatim>\<open>any\<close> is an \<open>'a option\<close>, \<open>None\<close> being
  \<^verbatim>\<open>null\<close>. \<open>AES_encrypt m k\<close> is \<^verbatim>\<open>CryptoJS.AES.encrypt(m, k).toString()\<close>,
  \<open>AES_decrypt c k\<close> is \<^verbatim>\<open>CryptoJS.AES.decrypt(c, k)\<close>, \<open>enc_Utf8 b\<close> is
  \<^verbatim>\<open>b.toString(CryptoJS.enc.Utf8)\<close>, \<open>is_truthy\<close> is the truthiness of a value that is not
  \<^verbatim>\<open>null\<close>.
\<close>

record 'a js_lib =
  JSON_stringify :: "'a option \<Rightarrow> js_error + string"
  JSON_parse :: "string \<Rightarrow> js_error + 'a option"
  AES_encrypt :: "string \<Rightarrow> string \<Rightarrow> js_error + string"
  AES_decrypt :: "string \<Rightarrow> string \<Rightarrow> js_error + WordArray"
  enc_Utf8 :: "WordArray \<Rightarrow> js_error + string"
  is_truthy :: "'a \<Rightarrow> bool"
  btoa :: "string \<Rightarrow> js_error + string"
  atob :: "string \<Rightarrow> js_error + string"

record MessageRef =
  m_id :: string

text \<open>\<open>payload_body_data\<close> is \<^verbatim>\<open>result.payload.body.data\<close>, \<open>None\<close> when \<^verbatim>\<open>payload\<close>,
  \<^verbatim>\<open>payload.body\<close> or \<^verbatim>\<open>payload.body.data\<close> is missing.\<close>

record MessageDetail =
  snippet :: string
  payload_body_data :: "string option"

text \<open>The Gmail client: \<open>messages_send raw\<close>, \<open>messages_list q maxResults\<close> (the
  \<^verbatim>\<open>result.messages\<close> of the response, which may be undefined) and \<open>messages_get id\<close>.\<close>

record gapi =
  messages_send :: "string \<Rightarrow> js_error + unit"
  messages_list :: "string \<Rightarrow> nat \<Rightarrow> js_error + MessageRef list option"
  messages_get :: "string \<Rightarrow> js_error + MessageDetail"

record MailService =
  gapiInited :: bool
  gisInited :: bool
  accessToken :: "string option"

definition encrypt :: "'a js_lib \<Rightarrow> 'a option \<Rightarrow> js_error + string" where
  "encrypt lib data =
     (case JSON_stringify lib data of
        Inl e \<Rightarrow> Inl e
      | Inr text \<Rightarrow> AES_encrypt lib text APP_SECRET_KEY)"

definition decrypt :: "'a js_lib \<Rightarrow> string \<Rightarrow> js_error + 'a option" where
  "decrypt lib ciphertext =
     try_catch
       (case AES_decrypt lib ciphertext APP_SECRET_KEY of
          Inl e \<Rightarrow> Inl e
        | Inr bytes \<Rightarrow>
            (case enc_Utf8 lib bytes of
               Inl e \<Rightarrow> Inl e
             | Inr text \<Rightarrow> JSON_parse lib text))
       (\<lambda>e. Inr None)"

text \<open>A \<^verbatim>\<open>Set<string>\<close> keeps its members in insertion order; \<^verbatim>\<open>add\<close> of a member
  changes nothing.\<close>

definition Set_add :: "string list \<Rightarrow> string \<Rightarrow> string list" where
  "Set_add s e = (if e \<in> set s then s else s @ [e])"

definition forEach_add :: "string list \<Rightarrow> string list option \<Rightarrow> string list" where
  "forEach_add s es = (case es of None \<Rightarrow> s | Some xs \<Rightarrow> foldl Set_add s xs)"

text \<open>Lines 114-123 of \<^verbatim>\<open>broadcastData\<close>: the set \<^verbatim>\<open>recipients\<close>.\<close>

definition recipients :: "User \<Rightarrow> string list" where
  "recipients user =
     (let r0 = Set_add [] (u_email user) in
      case u_hierarchy user of
        None \<Rightarrow> r0
      | Some h \<Rightarrow>
          (let r1 = (if truthy (rsmEmail h) then Set_add r0 (the (rsmEmail h)) else r0);
               r2 = forEach_add r1 (seEmails h);
               r3 = forEach_add r2 (dealerEmails h)
           in forEach_add r3 (dseEmails h)))"

text \<open>Line 132: \<^verbatim>\<open>Array.from(recipients).filter(e => e && e.includes('@'))\<close>.\<close>

definition recipientList :: "User \<Rightarrow> string list" where
  "recipientList user = filter (\<lambda>e. e \<noteq> [] \<and> CHR ''@'' \<in> set e) (recipients user)"

fun join :: "string \<Rightarrow> string list \<Rightarrow> string" where
  "join sep [] = []"
| "join sep [x] = x"
| "join sep (x # y # ys) = x @ sep @ join sep (y # ys)"

text \<open>\<^verbatim>\<open>.replace(/\+/g, '-').replace(/\//g, '_').replace(/=+$/, '')\<close>\<close>

definition base64url :: "string \<Rightarrow> string" where
  "base64url s =
     rev (dropWhile (\<lambda>c. c = CHR ''='')
       (rev (map (\<lambda>c. if c = CHR ''+'' then CHR ''-'' else if c = CHR ''/'' then CHR ''_'' else c) s)))"

definition emailContent :: "string list \<Rightarrow> string \<Rightarrow> string \<Rightarrow> string" where
  "emailContent to subject body =
     join [CHR 0x0A]
       [''To: '' @ (case to of [] \<Rightarrow> ''undefined'' | t # _ \<Rightarrow> t),
        ''Bcc: '' @ join '', '' to,
        ''Subject: '' @ subject,
        ''Content-Type: text/plain; charset=\"UTF-8\"'',
        ''Content-Transfer-Encoding: 7bit'',
        '''',
        body]"

definition sendEmail :: "'a js_lib \<Rightarrow> gapi \<Rightarrow> string list \<Rightarrow> string \<Rightarrow> string \<Rightarrow> js_error + unit" where
  "sendEmail lib g to subject body =
     (case btoa lib (emailContent to subject body) of
        Inl e \<Rightarrow> Inl e
      | Inr b64 \<Rightarrow> messages_send g (base64url b64))"

text \<open>\<^verbatim>\<open>broadcastData\<close>: the result is the exception thrown, or the list of recipients the
  message was sent to (empty when nothing was sent).\<close>

definition broadcastData ::
  "('d SyncPacket) js_lib \<Rightarrow> gapi \<Rightarrow> MailService \<Rightarrow> 'd SyncPacket \<Rightarrow> User \<Rightarrow> js_error + string list" where
  "broadcastData lib g ms packet user =
     (if \<not> truthy (accessToken ms) then Inl (Error ''Not Authenticated'')
      else
        (case encrypt lib (Some packet) of
           Inl e \<Rightarrow> Inl e
         | Inr encryptedBody \<Rightarrow>
             (let subject = SYNC_SUBJECT_PREFIX @ '' '' @ PacketType_string (p_type packet)
                              @ '' '' @ p_timestamp packet;
                  rl = recipientList user
              in if length rl = 0 then Inr []
                 else (case sendEmail lib g rl subject encryptedBody of
                         Inl e \<Rightarrow> Inl e
                       | Inr _ \<Rightarrow> Inr rl))))"

text \<open>The body of one message: the snippet, or the decoded payload when there is one.\<close>

definition message_body :: "'a js_lib \<Rightarrow> MessageDetail \<Rightarrow> js_error + string" where
  "message_body lib detail =
     (if truthy (payload_body_data detail)
      then atob lib (map (\<lambda>c. if c = CHR ''-'' then CHR ''+'' else if c = CHR ''_'' then CHR ''/'' else c)
                        (the (payload_body_data detail)))
      else Inr (snippet detail))"

text \<open>The \<^verbatim>\<open>for (const msg of messages)\<close> loop of \<^verbatim>\<open>fetchLatestData\<close>, \<open>packets\<close> being the
  accumulator.\<close>

fun fetch_loop :: "'a js_lib \<Rightarrow> gapi \<Rightarrow> MessageRef list \<Rightarrow> 'a list \<Rightarrow> js_error + 'a list" where
  "fetch_loop lib g [] packets = Inr packets"
| "fetch_loop lib g (msg # msgs) packets =
     (case messages_get g (m_id msg) of
        Inl e \<Rightarrow> Inl e
      | Inr detail \<Rightarrow>
          (case message_body lib detail of
             Inl e \<Rightarrow> Inl e
           | Inr body \<Rightarrow>
               (case decrypt lib body of
                  Inl e \<Rightarrow> Inl e
                | Inr None \<Rightarrow> fetch_loop lib g msgs packets
                | Inr (Some d) \<Rightarrow>
                    fetch_loop lib g msgs (if is_truthy lib d then packets @ [d] else packets))))"

definition fetchLatestData :: "'a js_lib \<Rightarrow> gapi \<Rightarrow> MailService \<Rightarrow> js_error + 'a list" where
  "fetchLatestData lib g ms =
     (if \<not> gapiInited ms \<or> \<not> truthy (accessToken ms) then Inr []
      else
        try_catch
          (case messages_list g (''subject:'' @ SYNC_SUBJECT_PREFIX) 50 of
             Inl e \<Rightarrow> Inl e
           | Inr None \<Rightarrow> Inr []
           | Inr (Some messages) \<Rightarrow>
               (if length messages = 0 then Inr [] else fetch_loop lib g messages []))
          (\<lambda>e. Inr []))"

section \<open>Records of the store, partial updates\<close>

text \<open>
  Of a plan the services read \<^verbatim>\<open>id\<close> and \<^verbatim>\<open>attachments\<close> only; the other properties, of
  whatever variant of \<^verbatim>\<open>AnyPlan\<close>, are carried as the finite map \<open>pl_props\<close> from property
  names to values.
\<close>

record 'v Plan =
  pl_id :: string
  pl_attachments :: "Attachment list option"
  pl_props :: "string \<rightharpoonup> 'v"

text \<open>\<^verbatim>\<open>Partial<T>\<close>: every property may be absent (\<open>None\<close>).\<close>

record OrganizationUpdates =
  up_o_id :: "string option"
  up_o_name :: "string option"
  up_o_adminEmail :: "string option"
  up_o_isApproved :: "bool option"
  up_o_createdAt :: "string option"

record UserUpdates =
  up_u_id :: "string option"
  up_u_email :: "string option"
  up_u_name :: "string option"
  up_u_password :: "string option"
  up_u_parentId :: "string option"
  up_u_role :: "UserRole option"
  up_u_organizationId :: "string option"
  up_u_organizationName :: "string option"
  up_u_isApproved :: "bool option"
  up_u_hierarchy :: "UserHierarchy option"

record 'v PlanUpdates =
  up_pl_id :: "string option"
  up_pl_attachments :: "Attachment list option"
  up_pl_props :: "string \<rightharpoonup> 'v"

definition override :: "'a \<Rightarrow> 'a option \<Rightarrow> 'a" where
  "override old new = (case new of None \<Rightarrow> old | Some v \<Rightarrow> v)"

definition override_opt :: "'a option \<Rightarrow> 'a option \<Rightarrow> 'a option" where
  "override_opt old new = (case new of None \<Rightarrow> old | Some v \<Rightarrow> Some v)"

text \<open>The spread \<^verbatim>\<open>{ ...o, ...updates }\<close>.\<close>

definition spread_Organization :: "Organization \<Rightarrow> OrganizationUpdates \<Rightarrow> Organization" where
  "spread_Organization org updates =
     \<lparr>o_id = override (o_id org) (up_o_id updates),
      o_name = override (o_name org) (up_o_name updates),
      o_adminEmail = override (o_adminEmail org) (up_o_adminEmail updates),
      o_isApproved = override (o_isApproved org) (up_o_isApproved updates),
      o_createdAt = override (o_createdAt org) (up_o_createdAt updates)\<rparr>"

definition spread_User :: "User \<Rightarrow> UserUpdates \<Rightarrow> User" where
  "spread_User u updates =
     \<lparr>u_id = override (u_id u) (up_u_id updates),
      u_email = override (u_email u) (up_u_email updates),
      u_name = override (u_name u) (up_u_name updates),
      u_password = override_opt (u_password u) (up_u_password updates),
      u_parentId = override_opt (u_parentId u) (up_u_parentId updates),
      u_role = override (u_role u) (up_u_role updates),
      u_organizationId = override (u_organizationId u) (up_u_organizationId updates),
      u_organizationName = override (u_organizationName u) (up_u_organizationName updates),
      u_isApproved = override (u_isApproved u) (up_u_isApproved updates),
      u_hierarchy = override_opt (u_hierarchy u) (up_u_hierarchy updates)\<rparr>"

definition spread_Plan :: "'v Plan \<Rightarrow> 'v PlanUpdates \<Rightarrow> 'v Plan" where
  "spread_Plan p updates =
     \<lparr>pl_id = override (pl_id p) (up_pl_id updates),
      pl_attachments = override_opt (pl_attachments p) (up_pl_attachments updates),
      pl_props = pl_props p ++ up_pl_props updates\<rparr>"

record 'v AppData =
  organizations :: "Organization list"
  users :: "User list"
  customers :: "Customer list"
  plans :: "'v Plan list"

definition INITIAL_DATA :: "'v AppData" where
  "INITIAL_DATA = \<lparr>organizations = [], users = [], customers = [], plans = []\<rparr>"

section \<open>The outside world of the database services\<close>

datatype collection = Organizations | Users | Customers | Plans

text \<open>
  What the write methods, the snapshot listeners and the notifier do, in the order in which
  they do it: \<open>LocalWrite c\<close> is an assignment to, or a push onto, the collection \<open>c\<close> of
  \<^verbatim>\<open>this.data\<close>; \<open>RemoteWrite c id ok\<close> is a call
  of \<^verbatim>\<open>setDoc\<close> or \<^verbatim>\<open>updateDoc\<close> on the document \<open>id\<close> of the remote collection \<open>c\<close>, which
  resolved (\<open>ok\<close>) or threw; \<open>Upload name ok\<close> is the upload of one attachment;
  \<open>SetItem ok\<close> is \<^verbatim>\<open>localStorage.setItem\<close>; \<open>Notify cb\<close> is a call of the subscriber \<open>cb\<close>.
\<close>

datatype event =
    LocalWrite collection
  | RemoteWrite collection string bool
  | Upload string bool
  | SetItem bool
  | Notify nat

text \<open>
  The outcomes of the calls that leave the service, during one operation:
  whether \<^verbatim>\<open>firebaseConfig\<close> has a key, what the four \<^verbatim>\<open>getDocs\<close> deliver (already passed
  through \<^verbatim>\<open>sanitizeDoc\<close>) or the exception of the bulk load, whether \<^verbatim>\<open>setDoc\<close> or
  \<^verbatim>\<open>updateDoc\<close> resolves, the download URL of an uploaded attachment (\<open>None\<close>: the upload
  threw), whether \<^verbatim>\<open>localStorage.setItem\<close> returns, and whether the four \<^verbatim>\<open>onSnapshot\<close>
  registrations return.
\<close>

record 'v env =
  config_present :: bool
  getDocs_result :: "js_error + 'v AppData"
  remote_ok :: bool
  upload_result :: "Attachment \<Rightarrow> string option"
  setItem_ok :: bool
  onSnapshot_ok :: bool

text \<open>The item \<^verbatim>\<open>sales_tracker_offline_data\<close> of \<^verbatim>\<open>localStorage\<close>: absent, a text that
  \<^verbatim>\<open>JSON.parse\<close> rejects, or the text of a snapshot.\<close>

datatype 'v stored = Absent | Corrupt | Saved "'v AppData"

definition startsWith_http :: "string \<Rightarrow> bool" where
  "startsWith_http s = (take 4 s = ''http'')"

section \<open>Database service with local fallback (services/mockDb.ts)\<close>

record 'v DatabaseService =
  data :: "'v AppData"
  initialized :: bool
  isOffline :: bool
  storage :: "'v stored"
  trace :: "event list"

definition log :: "event \<Rightarrow> 'v DatabaseService \<Rightarrow> 'v DatabaseService" where
  "log e s = s\<lparr>trace := trace s @ [e]\<rparr>"

definition saveToLocal :: "'v env \<Rightarrow> 'v DatabaseService \<Rightarrow> 'v DatabaseService" where
  "saveToLocal env s =
     (if isOffline s
      then (if setItem_ok env then log (SetItem True) (s\<lparr>storage := Saved (data s)\<rparr>)
            else log (SetItem False) s)
      else s)"









text \<open>The \<^verbatim>\<open>for (const file of attachments)\<close> loop of \<^verbatim>\<open>uploadAttachments\<close>; a failed upload
  is caught and the file is kept as it is.\<close>

fun upload_loop ::
  "'v env \<Rightarrow> Attachment list \<Rightarrow> Attachment list \<Rightarrow> event list \<Rightarrow> Attachment list \<times> event list" where
  "upload_loop env [] uploaded tr = (uploaded, tr)"
| "upload_loop env (file # rest) uploaded tr =
     (if startsWith_http (a_data file) then upload_loop env rest (uploaded @ [file]) tr
      else (case upload_result env file of
              Some url \<Rightarrow>
                upload_loop env rest (uploaded @ [file\<lparr>a_data := url\<rparr>]) (tr @ [Upload (a_name file) True])
            | None \<Rightarrow>
                upload_loop env rest (uploaded @ [file]) (tr @ [Upload (a_name file) False])))"

definition uploadAttachments ::
  "'v env \<Rightarrow> Attachment list option \<Rightarrow> 'v DatabaseService \<Rightarrow> Attachment list \<times> 'v DatabaseService" where
  "uploadAttachments env attachments s =
     (case attachments of
        None \<Rightarrow> ([], s)
      | Some files \<Rightarrow>
          (if length files = 0 then ([], s)
           else if isOffline s then (files, s)
           else (let (uploaded, tr) = upload_loop env files [] (trace s)
                 in (uploaded, s\<lparr>trace := tr\<rparr>))))"

text \<open>The tail every write method shares: persist when offline, else write to the remote
  collection and, when that throws, go offline and persist.\<close>

definition commit :: "'v env \<Rightarrow> collection \<Rightarrow> string \<Rightarrow> 'v DatabaseService \<Rightarrow> 'v DatabaseService" where
  "commit env c docId s =
     (if isOffline s then saveToLocal env s
      else (let s1 = log (RemoteWrite c docId (remote_ok env)) s
            in if remote_ok env then s1 else saveToLocal env (s1\<lparr>isOffline := True\<rparr>)))"

definition addOrganization :: "'v env \<Rightarrow> Organization \<Rightarrow> 'v DatabaseService \<Rightarrow> 'v DatabaseService" where
  "addOrganization env org s =
     commit env Organizations (o_id org)
       (log (LocalWrite Organizations)
          (s\<lparr>data := (data s)\<lparr>organizations := organizations (data s) @ [org]\<rparr>\<rparr>))"

definition updateOrganization ::
  "'v env \<Rightarrow> string \<Rightarrow> OrganizationUpdates \<Rightarrow> 'v DatabaseService \<Rightarrow> 'v DatabaseService" where
  "updateOrganization env ident updates s =
     commit env Organizations ident
       (log (LocalWrite Organizations)
          (s\<lparr>data := (data s)\<lparr>organizations :=
                map (\<lambda>x. if o_id x = ident then spread_Organization x updates else x)
                    (organizations (data s))\<rparr>\<rparr>))"

definition addUser :: "'v env \<Rightarrow> User \<Rightarrow> 'v DatabaseService \<Rightarrow> 'v DatabaseService" where
  "addUser env user s =
     commit env Users (u_id user)
       (log (LocalWrite Users) (s\<lparr>data := (data s)\<lparr>users := users (data s) @ [user]\<rparr>\<rparr>))"

definition updateUser ::
  "'v env \<Rightarrow> string \<Rightarrow> UserUpdates \<Rightarrow> 'v DatabaseService \<Rightarrow> 'v DatabaseService" where
  "updateUser env userId updates s =
     commit env Users userId
       (log (LocalWrite Users)
          (s\<lparr>data := (data s)\<lparr>users :=
                map (\<lambda>u. if u_id u = userId then spread_User u updates else u) (users (data s))\<rparr>\<rparr>))"

definition addCustomer :: "'v env \<Rightarrow> Customer \<Rightarrow> 'v DatabaseService \<Rightarrow> 'v DatabaseService" where
  "addCustomer env customer s =
     commit env Customers (c_id customer)
       (log (LocalWrite Customers)
          (s\<lparr>data := (data s)\<lparr>customers := customers (data s) @ [customer]\<rparr>\<rparr>))"

definition addPlan :: "'v env \<Rightarrow> 'v Plan \<Rightarrow> 'v DatabaseService \<Rightarrow> 'v DatabaseService" where
  "addPlan env plan s =
     (let (processedAttachments, s1) = uploadAttachments env (pl_attachments plan) s;
          planToSave = plan\<lparr>pl_attachments := Some processedAttachments\<rparr>
      in commit env Plans (pl_id plan)
           (log (LocalWrite Plans) (s1\<lparr>data := (data s1)\<lparr>plans := plans (data s1) @ [planToSave]\<rparr>\<rparr>)))"

definition updatePlan ::
  "'v env \<Rightarrow> string \<Rightarrow> 'v PlanUpdates \<Rightarrow> 'v DatabaseService \<Rightarrow> 'v DatabaseService" where
  "updatePlan env planId updates s =
     (let (updates1, s1) =
            (case up_pl_attachments updates of
               None \<Rightarrow> (updates, s)
             | Some files \<Rightarrow>
                 (let (processed, s') = uploadAttachments env (Some files) s
                  in (updates\<lparr>up_pl_attachments := Some processed\<rparr>, s')))
      in commit env Plans planId
           (log (LocalWrite Plans)
              (s1\<lparr>data := (data s1)\<lparr>plans :=
                    map (\<lambda>p. if pl_id p = planId then spread_Plan p updates1 else p)
                        (plans (data s1))\<rparr>\<rparr>)))"

text \<open>A write request, and a session of them, each with the outcomes of its outside calls.\<close>

datatype 'v request =
    AddOrganization Organization
  | UpdateOrganization string OrganizationUpdates
  | AddUser User
  | UpdateUser string UserUpdates
  | AddCustomer Customer
  | AddPlan "'v Plan"
  | UpdatePlan string "'v PlanUpdates"

fun perform :: "'v env \<Rightarrow> 'v request \<Rightarrow> 'v DatabaseService \<Rightarrow> 'v DatabaseService" where
  "perform env (AddOrganization org) s = addOrganization env org s"
| "perform env (UpdateOrganization ident updates) s = updateOrganization env ident updates s"
| "perform env (AddUser user) s = addUser env user s"
| "perform env (UpdateUser userId updates) s = updateUser env userId updates s"
| "perform env (AddCustomer customer) s = addCustomer env customer s"
| "perform env (AddPlan plan) s = addPlan env plan s"
| "perform env (UpdatePlan planId updates) s = updatePlan env planId updates s"


section \<open>Database service, online only (the second \<^verbatim>\<open>DatabaseService\<close>)\<close>

text \<open>A subscriber is a callback, known by its identity; calling it leaves the service as
  it is.\<close>

record 'v OnlineService =
  on_data :: "'v AppData"
  on_initialized :: bool
  isOnline :: bool
  listeners :: "collection list"
  subscribers :: "nat list"
  on_trace :: "event list"

definition on_log :: "event \<Rightarrow> 'v OnlineService \<Rightarrow> 'v OnlineService" where
  "on_log e s = s\<lparr>on_trace := on_trace s @ [e]\<rparr>"






text \<open>The upload loop of this service: a failed upload is thrown on.\<close>

fun upload_loop_online ::
  "'v env \<Rightarrow> Attachment list \<Rightarrow> Attachment list \<Rightarrow> event list
     \<Rightarrow> (js_error + Attachment list) \<times> event list" where
  "upload_loop_online env [] uploaded tr = (Inr uploaded, tr)"
| "upload_loop_online env (file # rest) uploaded tr =
     (if startsWith_http (a_data file) then upload_loop_online env rest (uploaded @ [file]) tr
      else (case upload_result env file of
              Some url \<Rightarrow>
                upload_loop_online env rest (uploaded @ [file\<lparr>a_data := url\<rparr>])
                  (tr @ [Upload (a_name file) True])
            | None \<Rightarrow> (Inl (Thrown ''File upload failed''), tr @ [Upload (a_name file) False])))"

definition uploadAttachments_online ::
  "'v env \<Rightarrow> Attachment list option \<Rightarrow> 'v OnlineService
     \<Rightarrow> (js_error + Attachment list) \<times> 'v OnlineService" where
  "uploadAttachments_online env attachments s =
     (case attachments of
        None \<Rightarrow> (Inr [], s)
      | Some files \<Rightarrow>
          (if length files = 0 then (Inr [], s)
           else if \<not> isOnline s then (Inl (Error ''Cannot upload files while offline''), s)
           else (let (r, tr) = upload_loop_online env files [] (on_trace s)
                 in (r, s\<lparr>on_trace := tr\<rparr>))))"






definition addPlan_online ::
  "'v env \<Rightarrow> 'v Plan \<Rightarrow> 'v OnlineService \<Rightarrow> 'v OnlineService \<times> js_error option" where
  "addPlan_online env plan s =
     (case uploadAttachments_online env (pl_attachments plan) s of
        (Inl e, s0) \<Rightarrow> (s0, Some e)
      | (Inr processedAttachments, s0) \<Rightarrow>
          (let planToSave = plan\<lparr>pl_attachments := Some processedAttachments\<rparr>;
               s1 = on_log (RemoteWrite Plans (pl_id plan) (remote_ok env)) s0
           in if \<not> remote_ok env then (s1, Some (Thrown ''setDoc''))
              else (on_log (LocalWrite Plans)
                      (s1\<lparr>on_data := (on_data s1)\<lparr>plans := plans (on_data s1) @ [planToSave]\<rparr>\<rparr>),
                    None)))"

definition updatePlan_online ::
  "'v env \<Rightarrow> string \<Rightarrow> 'v PlanUpdates \<Rightarrow> 'v OnlineService \<Rightarrow> 'v OnlineService \<times> js_error option" where
  "updatePlan_online env planId updates s =
     (case (case up_pl_attachments updates of
              None \<Rightarrow> (Inr updates, s)
            | Some files \<Rightarrow>
                (case uploadAttachments_online env (Some files) s of
                   (Inl e, s0) \<Rightarrow> (Inl e, s0)
                 | (Inr processed, s0) \<Rightarrow> (Inr (updates\<lparr>up_pl_attachments := Some processed\<rparr>), s0))) of
        (Inl e, s0) \<Rightarrow> (s0, Some e)
      | (Inr updates1, s0) \<Rightarrow>
          (let s1 = on_log (RemoteWrite Plans planId (remote_ok env)) s0
           in if \<not> remote_ok env then (s1, Some (Thrown ''updateDoc''))
              else (on_log (LocalWrite Plans)
                      (s1\<lparr>on_data := (on_data s1)\<lparr>plans :=
                            map (\<lambda>p. if pl_id p = planId then spread_Plan p updates1 else p)
                                (plans (on_data s1))\<rparr>\<rparr>),
                    None)))"





section \<open>Login (the two \<^verbatim>\<open>App\<close> components)\<close>








section \<open>Notions used in the statements\<close>

text \<open>The addresses of one subordinate tier, and all the addresses the hierarchy of a
  user lists: the manager's, when it is a non-empty string, and those of the three tiers.\<close>

definition tier :: "string list option \<Rightarrow> string set" where
  "tier es = (case es of None \<Rightarrow> {} | Some xs \<Rightarrow> set xs)"

definition hierarchy_emails :: "User \<Rightarrow> string set" where
  "hierarchy_emails user =
     (case u_hierarchy user of
        None \<Rightarrow> {}
      | Some h \<Rightarrow> (if truthy (rsmEmail h) then {the (rsmEmail h)} else {})
                   \<union> tier (seEmails h) \<union> tier (dealerEmails h) \<union> tier (dseEmails h))"





text \<open>What \<^verbatim>\<open>uploadAttachments\<close> makes of one file, and of the attachments of a write, in the
  service with local fallback.\<close>

definition kept_or_uploaded :: "'v env \<Rightarrow> Attachment \<Rightarrow> Attachment" where
  "kept_or_uploaded env f =
     (if startsWith_http (a_data f) then f
      else (case upload_result env f of Some url \<Rightarrow> f\<lparr>a_data := url\<rparr> | None \<Rightarrow> f))"

definition processed :: "'v env \<Rightarrow> bool \<Rightarrow> Attachment list option \<Rightarrow> Attachment list" where
  "processed env offline attachments =
     (case attachments of
        None \<Rightarrow> []
      | Some files \<Rightarrow> if offline then files else map (kept_or_uploaded env) files)"

definition upload_events :: "'v env \<Rightarrow> Attachment list \<Rightarrow> event list" where
  "upload_events env files =
     map (\<lambda>f. Upload (a_name f) (upload_result env f \<noteq> None))
       (filter (\<lambda>f. \<not> startsWith_http (a_data f)) files)"



text \<open>
  The local mutation that a request asks for (the spec's \<^verbatim>\<open>applyLocal\<close>): a record is
  appended to its collection, or every record with the given identity is overwritten
  with the updates; the attachments of a plan are those that \<open>processed\<close> gives.
\<close>

fun local_effect :: "'v env \<Rightarrow> bool \<Rightarrow> 'v request \<Rightarrow> 'v AppData \<Rightarrow> 'v AppData" where
  "local_effect env offline (AddOrganization org) d = d\<lparr>organizations := organizations d @ [org]\<rparr>"
| "local_effect env offline (UpdateOrganization ident updates) d =
     d\<lparr>organizations :=
         map (\<lambda>x. if o_id x = ident then spread_Organization x updates else x) (organizations d)\<rparr>"
| "local_effect env offline (AddUser user) d = d\<lparr>users := users d @ [user]\<rparr>"
| "local_effect env offline (UpdateUser userId updates) d =
     d\<lparr>users := map (\<lambda>u. if u_id u = userId then spread_User u updates else u) (users d)\<rparr>"
| "local_effect env offline (AddCustomer customer) d = d\<lparr>customers := customers d @ [customer]\<rparr>"
| "local_effect env offline (AddPlan plan) d =
     d\<lparr>plans := plans d @ [plan\<lparr>pl_attachments := Some (processed env offline (pl_attachments plan))\<rparr>]\<rparr>"
| "local_effect env offline (UpdatePlan planId updates) d =
     d\<lparr>plans :=
         map (\<lambda>p. if pl_id p = planId
                   then spread_Plan p
                          (case up_pl_attachments updates of
                             None \<Rightarrow> updates
                           | Some files \<Rightarrow>
                               updates\<lparr>up_pl_attachments := Some (processed env offline (Some files))\<rparr>)
                   else p)
             (plans d)\<rparr>"


text \<open>A file whose upload is attempted and throws.\<close>

definition failing :: "'v env \<Rightarrow> Attachment \<Rightarrow> bool" where
  "failing env f = (\<not> startsWith_http (a_data f) \<and> upload_result env f = None)"




section \<open>Concrete inputs\<close>

text \<open>
  A small library instance on which the codec can be run: values are natural numbers
  written in unary, the cipher prepends the key, and a ciphertext that does not start
  with the key is rejected.
\<close>

definition toy_stringify :: "nat option \<Rightarrow> js_error + string" where
  "toy_stringify v = (case v of None \<Rightarrow> Inr ''null'' | Some n \<Rightarrow> Inr (replicate n (CHR ''1'')))"

definition toy_parse :: "string \<Rightarrow> js_error + nat option" where
  "toy_parse s =
     (if s = ''null'' then Inr None
      else if list_all (\<lambda>c. c = CHR ''1'') s then Inr (Some (length s))
      else Inl (Thrown ''SyntaxError''))"

definition toy_lib :: "nat js_lib" where
  "toy_lib =
     \<lparr>JSON_stringify = toy_stringify, JSON_parse = toy_parse,
      AES_encrypt = (\<lambda>m k. Inr (k @ m)),
      AES_decrypt = (\<lambda>c k. if take (length k) c = k then Inr (drop (length k) c)
                              else Inl (Thrown ''Malformed'')),
      enc_Utf8 = Inr,
      is_truthy = (\<lambda>n. n \<noteq> 0),
      btoa = Inr, atob = Inr\<rparr>"

text \<open>A library instance for packets; none of its functions returns.\<close>

definition failing_lib :: "'a js_lib" where
  "failing_lib =
     \<lparr>JSON_stringify = (\<lambda>v. Inl (Thrown ''stringify'')), JSON_parse = (\<lambda>s. Inl (Thrown ''parse'')),
      AES_encrypt = (\<lambda>m k. Inl (Thrown ''encrypt'')), AES_decrypt = (\<lambda>c k. Inl (Thrown ''decrypt'')),
      enc_Utf8 = (\<lambda>b. Inl (Thrown ''utf8'')), is_truthy = (\<lambda>v. True),
      btoa = (\<lambda>s. Inl (Thrown ''btoa'')), atob = (\<lambda>s. Inl (Thrown ''atob''))\<rparr>"

text \<open>An inbox with one tagged message, whose snippet is the toy envelope of 3.\<close>

definition toy_gapi :: gapi where
  "toy_gapi =
     \<lparr>messages_send = (\<lambda>raw. Inr ()),
      messages_list = (\<lambda>q n. Inr (Some [\<lparr>m_id = ''m1''\<rparr>])),
      messages_get = (\<lambda>i. Inr \<lparr>snippet = ''SALES_TRACKER_SECURE_KEY_V1111'', payload_body_data = None\<rparr>)\<rparr>"

definition example_user :: "string \<Rightarrow> UserHierarchy option \<Rightarrow> User" where
  "example_user e h =
     \<lparr>u_id = ''u1'', u_email = e, u_name = ''Asha'', u_password = Some ''pw'', u_parentId = None,
      u_role = SALES_ENG, u_organizationId = ''org_1'', u_organizationName = ''Acme'',
      u_isApproved = True, u_hierarchy = h\<rparr>"

text \<open>The service as its constructor leaves it, with nothing in the browser's storage, and
  an environment in which the bulk load delivers \<open>d\<close>.\<close>

definition new_DatabaseService :: "nat DatabaseService" where
  "new_DatabaseService =
     \<lparr>data = INITIAL_DATA, initialized = False, isOffline = False, storage = Absent, trace = []\<rparr>"

definition cloud_env :: "nat AppData \<Rightarrow> nat env" where
  "cloud_env d =
     \<lparr>config_present = True, getDocs_result = Inr d, remote_ok = True,
      upload_result = (\<lambda>f. Some (''https://blob/'' @ a_name f)), setItem_ok = True,
      onSnapshot_ok = True\<rparr>"

definition new_OnlineService :: "nat OnlineService" where
  "new_OnlineService =
     \<lparr>on_data = INITIAL_DATA, on_initialized = False, isOnline = False, listeners = [],
      subscribers = [], on_trace = []\<rparr>"

text \<open>A connected service with local fallback, a customer, and an environment in which the
  remote write throws.\<close>

definition connected_service :: "nat DatabaseService" where
  "connected_service = new_DatabaseService\<lparr>initialized := True\<rparr>"



definition example_plan :: "string \<Rightarrow> nat Plan" where
  "example_plan payload =
     \<lparr>pl_id = ''p1'',
      pl_attachments = Some [\<lparr>a_name = ''site.png'', a_data = payload, a_type = photo\<rparr>],
      pl_props = Map.empty\<rparr>"

definition upload_down :: "nat env" where
  "upload_down = (cloud_env INITIAL_DATA)\<lparr>upload_result := (\<lambda>f. None)\<rparr>"

definition acme :: Organization where
  "acme = \<lparr>o_id = ''org_1'', o_name = ''Acme'', o_adminEmail = ''asha@acme.in'',
           o_isApproved = False, o_createdAt = ''2024-01-01T00:00:00.000Z''\<rparr>"




section \<open>Hierarchy resolver\<close>

lemma set_Set_add: "set (Set_add s e) = insert e (set s)"
  by (auto simp: Set_add_def)

lemma distinct_Set_add: "distinct s \<Longrightarrow> distinct (Set_add s e)"
  by (simp add: Set_add_def)

lemma set_foldl_Set_add: "set (foldl Set_add s xs) = set s \<union> set xs"
  by (induction xs arbitrary: s) (auto simp: set_Set_add)

lemma distinct_foldl_Set_add: "distinct s \<Longrightarrow> distinct (foldl Set_add s xs)"
  by (induction xs arbitrary: s) (auto simp: distinct_Set_add)

lemma set_forEach_add: "set (forEach_add s es) = set s \<union> tier es"
  by (simp add: forEach_add_def tier_def set_foldl_Set_add split: option.split)

lemma distinct_forEach_add: "distinct s \<Longrightarrow> distinct (forEach_add s es)"
  by (simp add: forEach_add_def distinct_foldl_Set_add split: option.split)

lemma set_recipients: "set (recipients user) = insert (u_email user) (hierarchy_emails user)"
  by (auto simp: recipients_def hierarchy_emails_def Let_def set_Set_add set_forEach_add
           split: option.split)

lemma distinct_recipients: "distinct (recipients user)"
  by (simp add: recipients_def Let_def distinct_Set_add distinct_forEach_add split: option.split)

text \<open>
  C5, as stated, fails: the acting user's own address is dropped from the recipient list
  when it has no \<open>@\<close>. Here the user's address is \<open>admin\<close> and the list is empty.
\<close>

theorem C5_own_address_dropped:
  "u_email (example_user ''admin'' None) \<notin> set (recipientList (example_user ''admin'' None))"
  by (simp add: recipientList_def recipients_def example_user_def Set_add_def)

text \<open>
  C5, amended: the recipient list holds exactly the addresses with an \<open>@\<close> among the acting
  user's own address, the manager's address and the addresses of every listed subordinate
  tier; it has no duplicates; the user's own address is in it exactly when it has an \<open>@\<close>.
\<close>

theorem C5_recipientList:
  "set (recipientList user) =
     {e. (e = u_email user \<or> e \<in> hierarchy_emails user) \<and> CHR ''@'' \<in> set e}
   \<and> distinct (recipientList user)
   \<and> (u_email user \<in> set (recipientList user)) = (CHR ''@'' \<in> set (u_email user))"
  by (auto simp: recipientList_def set_recipients distinct_recipients)

section \<open>Envelope codec\<close>






lemma toy_decrypt_foreign: "AES_decrypt toy_lib ''hello'' APP_SECRET_KEY = Inl (Thrown ''Malformed'')"
  by (simp add: toy_lib_def APP_SECRET_KEY_def)



text \<open>
  C4: \<open>decrypt\<close> returns on every input, whatever the libraries do; when the decryption,
  the decoding of the bytes or the parse throws, it returns \<^verbatim>\<open>null\<close>; and the receive loop
  goes on to the next message after a message that did not decode.
\<close>

theorem C4_decrypt_returns_null:
  "(\<exists>v. decrypt lib c = Inr v)
   \<and> (((\<exists>e. AES_decrypt lib c APP_SECRET_KEY = Inl e)
        \<or> (\<exists>b e. AES_decrypt lib c APP_SECRET_KEY = Inr b \<and> enc_Utf8 lib b = Inl e)
        \<or> (\<exists>b t e. AES_decrypt lib c APP_SECRET_KEY = Inr b \<and> enc_Utf8 lib b = Inr t
                    \<and> JSON_parse lib t = Inl e))
       \<longrightarrow> decrypt lib c = Inr None)
   \<and> (messages_get g (m_id msg) = Inr detail \<and> message_body lib detail = Inr c
        \<and> decrypt lib c = Inr None
       \<longrightarrow> fetch_loop lib g (msg # msgs) packets = fetch_loop lib g msgs packets)"
  by (auto simp: decrypt_def try_catch_def split: sum.splits)

theorem C4_decrypt_returns_null_witness:
  "AES_decrypt toy_lib ''hello'' APP_SECRET_KEY = Inl (Thrown ''Malformed'')
   \<and> decrypt toy_lib ''hello'' = Inr None
   \<and> fetch_loop toy_lib (toy_gapi\<lparr>messages_get := (\<lambda>i. Inr \<lparr>snippet = ''hello'', payload_body_data = None\<rparr>)\<rparr>)
        [\<lparr>m_id = ''m0''\<rparr>, \<lparr>m_id = ''m1''\<rparr>] [7]
      = fetch_loop toy_lib (toy_gapi\<lparr>messages_get := (\<lambda>i. Inr \<lparr>snippet = ''hello'', payload_body_data = None\<rparr>)\<rparr>)
        [\<lparr>m_id = ''m1''\<rparr>] [7]"
  using C4_decrypt_returns_null [of toy_lib "''hello''"
      "toy_gapi\<lparr>messages_get := (\<lambda>i. Inr \<lparr>snippet = ''hello'', payload_body_data = None\<rparr>)\<rparr>"
      "\<lparr>m_id = ''m0''\<rparr>" "\<lparr>snippet = ''hello'', payload_body_data = None\<rparr>" "[\<lparr>m_id = ''m1''\<rparr>]" "[7]"]
    toy_decrypt_foreign
  by (simp add: message_body_def truthy_def)

section \<open>Email channel without a token\<close>

text \<open>
  C8, as stated, fails for the inbox fetch: without a token \<open>fetchLatestData\<close> returns the
  empty list and no error, although the inbox holds a message, which the same call
  returns once a token is held.
\<close>

theorem C8_fetch_without_token_is_silent:
  "fetchLatestData toy_lib toy_gapi \<lparr>gapiInited = True, gisInited = True, accessToken = None\<rparr> = Inr []
   \<and> fetchLatestData toy_lib toy_gapi \<lparr>gapiInited = True, gisInited = True, accessToken = Some ''t0k''\<rparr>
       = Inr [3]"
  by (simp add: fetchLatestData_def truthy_def try_catch_def toy_gapi_def message_body_def
        decrypt_def toy_lib_def APP_SECRET_KEY_def toy_parse_def)

text \<open>
  C8, amended: without a token (none, or the empty string) a broadcast throws the error
  \<open>Not Authenticated\<close> and sends nothing, and an inbox fetch returns the empty list without
  an error; either outcome is the same whatever the libraries and the Gmail client would
  answer, so that nothing outside the service, the consent flow included, is called.
\<close>

theorem C8_without_token:
  assumes "\<not> truthy (accessToken ms)"
  shows "broadcastData lib g ms packet user = Inl (Error ''Not Authenticated'')
         \<and> fetchLatestData lib' g ms = Inr []"
  using assms by (simp add: broadcastData_def fetchLatestData_def)

theorem C8_without_token_witness:
  "\<not> truthy (accessToken \<lparr>gapiInited = True, gisInited = True, accessToken = Some ''''\<rparr>)
   \<and> broadcastData failing_lib toy_gapi \<lparr>gapiInited = True, gisInited = True, accessToken = Some ''''\<rparr>
        \<lparr>p_type = CUSTOMER, p_data = (0::nat), p_timestamp = ''2024-01-01'', p_sender = ''u1''\<rparr>
        (example_user ''asha@acme.in'' None)
      = Inl (Error ''Not Authenticated'')
   \<and> fetchLatestData toy_lib toy_gapi \<lparr>gapiInited = True, gisInited = True, accessToken = Some ''''\<rparr> = Inr []"
proof -
  have h: "\<not> truthy (accessToken \<lparr>gapiInited = True, gisInited = True, accessToken = Some ''''\<rparr>)"
    by (simp add: truthy_def)
  show ?thesis
    using h C8_without_token [OF h, of failing_lib toy_gapi
        "\<lparr>p_type = CUSTOMER, p_data = (0::nat), p_timestamp = ''2024-01-01'', p_sender = ''u1''\<rparr>"
        "example_user ''asha@acme.in'' None" toy_lib]
    by simp
qed

section \<open>Bootstrap super admin\<close>











section \<open>Change notifier\<close>





lemma data_uploadAttachments_online:
  "on_data (snd (uploadAttachments_online env attachments s)) = on_data s"
  by (simp add: uploadAttachments_online_def split: option.split prod.split)







section \<open>Writes of the service with local fallback\<close>

lemma upload_loop_eq:
  "upload_loop env files uploaded tr =
     (uploaded @ map (kept_or_uploaded env) files, tr @ upload_events env files)"
  by (induction files arbitrary: uploaded tr)
     (auto simp: kept_or_uploaded_def upload_events_def split: option.split)



lemma uploadAttachments_eq:
  "uploadAttachments env attachments s =
     (processed env (isOffline s) attachments,
      if isOffline s then s
      else s\<lparr>trace := trace s @ upload_events env (case attachments of None \<Rightarrow> [] | Some files \<Rightarrow> files)\<rparr>)"
  by (cases attachments) (auto simp: uploadAttachments_def processed_def upload_loop_eq upload_events_def)

lemma data_commit: "data (commit env c i s) = data s"
  by (simp add: commit_def saveToLocal_def log_def Let_def)




lemmas write_defs =
  addOrganization_def updateOrganization_def addUser_def updateUser_def addCustomer_def
  addPlan_def updatePlan_def

lemma data_perform:
  "data (perform env w s) = local_effect env (isOffline s) w (data s)"
  by (cases w)
     (auto simp: write_defs data_commit log_def uploadAttachments_eq Let_def split: option.split)








section \<open>Writes of the online service\<close>


lemma fst_upload_loop_online:
  "fst (upload_loop_online env files uploaded tr) =
     (if list_ex (failing env) files then Inl (Thrown ''File upload failed'')
      else Inr (uploaded @ map (kept_or_uploaded env) files))"
  by (induction files arbitrary: uploaded tr)
     (auto simp: failing_def kept_or_uploaded_def split: option.split)


lemma fst_uploadAttachments_online:
  "fst (uploadAttachments_online env attachments s) =
     (case attachments of
        None \<Rightarrow> Inr []
      | Some files \<Rightarrow>
          if files = [] then Inr []
          else if \<not> isOnline s then Inl (Error ''Cannot upload files while offline'')
          else if list_ex (failing env) files then Inl (Thrown ''File upload failed'')
          else Inr (map (kept_or_uploaded env) files))"
proof (cases attachments)
  case None
  then show ?thesis by (simp add: uploadAttachments_online_def)
next
  case (Some files)
  have "fst (case upload_loop_online env files [] (on_trace s) of (r, tr) \<Rightarrow> (r, s\<lparr>on_trace := tr\<rparr>))
        = fst (upload_loop_online env files [] (on_trace s))"
    by (simp add: split_beta)
  with Some show ?thesis
    by (simp add: uploadAttachments_online_def fst_upload_loop_online)
qed







section \<open>Attachments\<close>

text \<open>
  C6, as stated, fails on both services. In the service with local fallback, in connected
  mode, a failed upload of a new attachment does not fail the write: the plan is stored
  with the inline payload and written to the remote store. In the online service, when
  it is not online, a plan with an attachment is refused, also when the attachment is
  already a URL.
\<close>

theorem C6_upload_failure_does_not_fail_write:
  "\<not> isOffline connected_service
   \<and> upload_result upload_down \<lparr>a_name = ''site.png'', a_data = ''data:image/png;base64,AAAA'', a_type = photo\<rparr> = None
   \<and> plans (data (addPlan upload_down (example_plan ''data:image/png;base64,AAAA'') connected_service))
       = [example_plan ''data:image/png;base64,AAAA'']
   \<and> trace (addPlan upload_down (example_plan ''data:image/png;base64,AAAA'') connected_service)
       = [Upload ''site.png'' False, LocalWrite Plans, RemoteWrite Plans ''p1'' True]
   \<and> \<not> isOnline new_OnlineService
   \<and> addPlan_online (cloud_env INITIAL_DATA) (example_plan ''https://blob/site.png'') new_OnlineService
       = (new_OnlineService, Some (Error ''Cannot upload files while offline''))"
  by (simp add: addPlan_def uploadAttachments_def commit_def log_def connected_service_def
        new_DatabaseService_def upload_down_def cloud_env_def INITIAL_DATA_def example_plan_def
        startsWith_http_def addPlan_online_def uploadAttachments_online_def new_OnlineService_def)

text \<open>
  C6, amended. In the service with local fallback: in connected mode every new attachment
  is uploaded and its payload replaced by the URL, but an attachment whose upload throws
  is kept with its inline payload, and the write goes on; when offline no upload is
  attempted and the attachments are kept as they are; an attachment whose payload starts
  with \<open>http\<close> is passed on unchanged in either mode. In the online service: when it is
  not online, a non-empty list of attachments throws; when online, the first new
  attachment whose upload throws makes the upload throw, and otherwise URL-form
  attachments pass unchanged and the others get their URL; an exception of the upload
  fails \<^verbatim>\<open>addPlan\<close> and \<^verbatim>\<open>updatePlan\<close>, which leave the local collections as they were.
\<close>

theorem C6_attachments:
  "fst (uploadAttachments env attachments s) = processed env (isOffline s) attachments
   \<and> (isOffline s \<longrightarrow> snd (uploadAttachments env attachments s) = s)
   \<and> data (perform env w s) = local_effect env (isOffline s) w (data s)
   \<and> (startsWith_http (a_data f) \<or> failing env f \<longrightarrow> kept_or_uploaded env f = f)
   \<and> fst (uploadAttachments_online env attachments t) =
       (case attachments of
          None \<Rightarrow> Inr []
        | Some files \<Rightarrow>
            if files = [] then Inr []
            else if \<not> isOnline t then Inl (Error ''Cannot upload files while offline'')
            else if list_ex (failing env) files then Inl (Thrown ''File upload failed'')
            else Inr (map (kept_or_uploaded env) files))
   \<and> (fst (uploadAttachments_online env (pl_attachments plan) t) = Inl e \<longrightarrow>
        snd (addPlan_online env plan t) = Some e
        \<and> on_data (fst (addPlan_online env plan t)) = on_data t)
   \<and> (up_pl_attachments updates = Some files
        \<and> fst (uploadAttachments_online env (Some files) t) = Inl e \<longrightarrow>
        snd (updatePlan_online env planId updates t) = Some e
        \<and> on_data (fst (updatePlan_online env planId updates t)) = on_data t)"
proof -
  have a: "fst (uploadAttachments_online env (pl_attachments plan) t) = Inl e \<Longrightarrow>
        snd (addPlan_online env plan t) = Some e
        \<and> on_data (fst (addPlan_online env plan t)) = on_data t"
    using data_uploadAttachments_online [of env "pl_attachments plan" t]
    by (cases "uploadAttachments_online env (pl_attachments plan) t")
       (simp add: addPlan_online_def)
  have u: "up_pl_attachments updates = Some files \<Longrightarrow>
        fst (uploadAttachments_online env (Some files) t) = Inl e \<Longrightarrow>
        snd (updatePlan_online env planId updates t) = Some e
        \<and> on_data (fst (updatePlan_online env planId updates t)) = on_data t"
    using data_uploadAttachments_online [of env "Some files" t]
    by (cases "uploadAttachments_online env (Some files) t")
       (simp add: updatePlan_online_def)
  have k: "startsWith_http (a_data f) \<or> failing env f \<Longrightarrow> kept_or_uploaded env f = f"
    by (auto simp: kept_or_uploaded_def failing_def)
  show ?thesis
    using a u k
    by (simp add: uploadAttachments_eq data_perform fst_uploadAttachments_online)
qed

theorem C6_attachments_witness:
  "isOffline (connected_service\<lparr>isOffline := True\<rparr>)
   \<and> uploadAttachments upload_down (pl_attachments (example_plan ''data:image/png;base64,AAAA''))
        (connected_service\<lparr>isOffline := True\<rparr>)
       = ([\<lparr>a_name = ''site.png'', a_data = ''data:image/png;base64,AAAA'', a_type = photo\<rparr>],
          connected_service\<lparr>isOffline := True\<rparr>)
   \<and> startsWith_http (a_data \<lparr>a_name = ''site.png'', a_data = ''https://blob/site.png'', a_type = photo\<rparr>)
   \<and> kept_or_uploaded upload_down \<lparr>a_name = ''site.png'', a_data = ''https://blob/site.png'', a_type = photo\<rparr>
       = \<lparr>a_name = ''site.png'', a_data = ''https://blob/site.png'', a_type = photo\<rparr>
   \<and> fst (uploadAttachments_online upload_down
             (pl_attachments (example_plan ''data:image/png;base64,AAAA''))
             (new_OnlineService\<lparr>isOnline := True\<rparr>))
       = Inl (Thrown ''File upload failed'')
   \<and> snd (addPlan_online upload_down (example_plan ''data:image/png;base64,AAAA'')
             (new_OnlineService\<lparr>isOnline := True\<rparr>))
       = Some (Thrown ''File upload failed'')
   \<and> on_data (fst (addPlan_online upload_down (example_plan ''data:image/png;base64,AAAA'')
                      (new_OnlineService\<lparr>isOnline := True\<rparr>)))
       = INITIAL_DATA
   \<and> snd (updatePlan_online upload_down ''p1''
             \<lparr>up_pl_id = None,
              up_pl_attachments = Some [\<lparr>a_name = ''site.png'', a_data = ''data:image/png;base64,AAAA'', a_type = photo\<rparr>],
              up_pl_props = Map.empty\<rparr>
             (new_OnlineService\<lparr>isOnline := True\<rparr>))
       = Some (Thrown ''File upload failed'')"
proof -
  let ?f = "\<lparr>a_name = ''site.png'', a_data = ''data:image/png;base64,AAAA'', a_type = photo\<rparr>"
  let ?g = "\<lparr>a_name = ''site.png'', a_data = ''https://blob/site.png'', a_type = photo\<rparr>"
  let ?p = "example_plan ''data:image/png;base64,AAAA''"
  let ?u = "\<lparr>up_pl_id = None, up_pl_attachments = Some [?f], up_pl_props = Map.empty\<rparr> :: nat PlanUpdates"
  let ?s = "connected_service\<lparr>isOffline := True\<rparr>"
  let ?t = "new_OnlineService\<lparr>isOnline := True\<rparr>"
  have off: "isOffline ?s" by simp
  have http: "startsWith_http (a_data ?g)" by (simp add: startsWith_http_def)
  have atts: "pl_attachments ?p = Some [?f]" by (simp add: example_plan_def)
  have fail: "failing upload_down ?f"
    by (simp add: failing_def upload_down_def startsWith_http_def)
  have online: "isOnline ?t" "on_data ?t = INITIAL_DATA"
    by (simp_all add: new_OnlineService_def)
  have up: "up_pl_attachments ?u = Some [?f]" by simp
  note inst = C6_attachments [of upload_down "pl_attachments ?p" ?s "AddPlan ?p" ?g ?t ?p
      "Thrown ''File upload failed''" ?u "[?f]" "''p1''"]
  have 1: "fst (uploadAttachments_online upload_down (pl_attachments ?p) ?t)
             = Inl (Thrown ''File upload failed'')"
    using inst atts fail online by simp
  have 2: "snd (addPlan_online upload_down ?p ?t) = Some (Thrown ''File upload failed'')"
    "on_data (fst (addPlan_online upload_down ?p ?t)) = INITIAL_DATA"
    using inst 1 online by simp_all
  have 3: "snd (updatePlan_online upload_down ''p1'' ?u ?t) = Some (Thrown ''File upload failed'')"
    using inst 1 up atts by simp
  have 4: "uploadAttachments upload_down (pl_attachments ?p) ?s = ([?f], ?s)"
    using inst off atts by (simp add: prod_eq_iff processed_def)
  have 5: "kept_or_uploaded upload_down ?g = ?g"
    using inst http by simp
  show ?thesis
    using off http 1 2 3 4 5 by simp
qed

section \<open>Login of users of an unapproved organisation\<close>






end
